theory Spec2Isabelle
  imports Main "HOL-Library.AList"
begin

section \<open>The fluent builder of langgraph/graph/fluent.py\<close>

text \<open>
  The module wraps a graph engine (\<open>StateGraph\<close>) in two classes, \<open>FluentNode\<close> and
  \<open>FluentWorkflow\<close>, whose objects refer to each other: a workflow keeps a dictionary
  from names to node objects, and a node keeps a reference to the workflow it was
  added to. Objects are therefore modelled by reference: a node is a \<open>node_id\<close>, a
  workflow a \<open>wf_id\<close>, and the program state holds what each reference points to.
  Every method takes the state and gives back the state after the call, together with
  either the exception it raised (\<open>Inl\<close>) or the value it returned (\<open>Inr\<close>).
\<close>

subsection \<open>Data\<close>

type_synonym node_id = nat
type_synonym wf_id = nat

text \<open>A Python callable; the builder only stores it and hands it on.\<close>

datatype callable = Fn string

text \<open>
  \<open>FluentNode\<close>: the attributes \<open>name\<close>, \<open>function\<close> and \<open>_workflow\<close>
  (\<open>func\<close> and \<open>node_workflow\<close> here).
\<close>

record fluent_node =
  name :: string
  func :: "callable option"
  node_workflow :: "wf_id option"

text \<open>
  Modelled from the spec: the engine (\<open>StateGraph\<close>, imported from
  \<open>langgraph.graph\<close>) is not part of the source at hand. Section 6 of the spec lists
  the operations the builder consumes from it (\<open>add_node\<close>, \<open>add_edge\<close>,
  \<open>set_entry_point\<close>, \<open>add_conditional_edges\<close>, \<open>compile\<close>); an engine instance is
  modelled by the calls that mutate it, in the order it received them, each with its
  arguments. The mapping of a conditional edge is a Python dictionary, kept as the list
  of its items in insertion order.
\<close>

datatype engine_call =
    AddNode string callable
  | AddEdge string string
  | SetEntryPoint string
  | AddConditionalEdges string callable "(string \<times> string) list"

text \<open>
  Modelled from the spec: the terminal marker, the constant \<open>END\<close> that the module
  imports from \<open>langgraph.graph\<close> (not part of the source at hand); in langgraph it
  is the string \<open>__end__\<close>.
\<close>

definition END :: string where
  "END = ''__end__''"

text \<open>
  \<open>FluentWorkflow\<close>: the attributes \<open>_graph\<close> and \<open>_entry_point\<close>. The third
  attribute, \<open>_nodes\<close>, is bound once in \<open>__init__\<close> to a new dictionary and never
  rebound, so that dictionary is the object \<open>NodesOf w\<close> of the dictionary store below.
\<close>

record fluent_workflow =
  wf_graph :: "engine_call list"
  wf_entry_point :: "string option"

text \<open>
  Dictionaries from names to nodes are objects too: the \<open>_nodes\<close> dictionary of a
  workflow, and the copies that the \<open>nodes\<close> property creates.
\<close>

datatype dict_ref = NodesOf wf_id | Copy nat

record pstate =
  node_heap :: "node_id \<Rightarrow> fluent_node"
  wf_heap :: "wf_id \<Rightarrow> fluent_workflow"
  dict_heap :: "dict_ref \<Rightarrow> (string \<rightharpoonup> node_id)"
  next_copy :: nat

text \<open>
  Every exception of the module is a \<open>ValueError\<close>; one constructor per \<open>raise\<close>
  statement, named after the spec's taxonomy, with the value the message interpolates:
  \<^item> \<open>PreconditionError n\<close>: "Node 'n' must be added to a workflow before creating edges";
  \<^item> \<open>CrossWorkflowError\<close>: "Both nodes must belong to the same workflow";
  \<^item> \<open>InvalidTargetError\<close>: "Can only create edges to other FluentNode instances or string endpoints";
  \<^item> \<open>NotFluentNodeError\<close>: "Can only add FluentNode instances to workflow";
  \<^item> \<open>MissingCallableError n\<close>: "FluentNode 'n' must have a function assigned before adding to workflow";
  \<^item> \<open>UnknownNodeError n\<close>: "Node 'n' not found in workflow. ...";
  \<^item> \<open>NoEntryPointError\<close>: "Entry point must be set before compiling. ...".
\<close>

datatype error =
    PreconditionError string
  | CrossWorkflowError
  | InvalidTargetError
  | NotFluentNodeError
  | MissingCallableError string
  | UnknownNodeError string
  | NoEntryPointError

text \<open>
  Arguments. \<open>node_or_str\<close> is the annotation \<open>Union[str, FluentNode]\<close>; \<open>pyobj\<close>
  is an arbitrary Python object, for the methods that test \<open>isinstance\<close> and raise in
  the last branch.
\<close>

datatype node_or_str = Node node_id | Str string

datatype pyobj = Typed node_or_str | Other

subsection \<open>Construction\<close>

text \<open>\<open>FluentNode.__init__\<close> and \<open>FluentWorkflow.__init__\<close>: the fields of a new object.\<close>

definition FluentNode_init :: "string \<Rightarrow> fluent_node" where
  "FluentNode_init nm = \<lparr>name = nm, func = None, node_workflow = None\<rparr>"

definition FluentWorkflow_init :: fluent_workflow where
  "FluentWorkflow_init = \<lparr>wf_graph = [], wf_entry_point = None\<rparr>"

text \<open>
  The state in which every node and workflow has just been constructed (node \<open>i\<close> with
  the name \<open>names i\<close>) and nothing else has been called.
\<close>

definition initial :: "(node_id \<Rightarrow> string) \<Rightarrow> pstate" where
  "initial names =
     \<lparr>node_heap = (\<lambda>i. FluentNode_init (names i)),
      wf_heap = (\<lambda>w. FluentWorkflow_init),
      dict_heap = (\<lambda>d. Map.empty),
      next_copy = 0\<rparr>"

subsection \<open>The engine, as the builder uses it\<close>

text \<open>A call on \<open>self._graph\<close> of workflow \<open>w\<close>: the engine records it.\<close>

definition graph_call :: "pstate \<Rightarrow> wf_id \<Rightarrow> engine_call \<Rightarrow> pstate" where
  "graph_call s w c =
     s\<lparr>wf_heap := (wf_heap s)(w := (wf_heap s w)\<lparr>wf_graph := wf_graph (wf_heap s w) @ [c]\<rparr>)\<rparr>"

subsection \<open>FluentNode\<close>

definition with_function :: "pstate \<Rightarrow> node_id \<Rightarrow> callable \<Rightarrow> pstate \<times> node_id" where
  "with_function s self f =
     (s\<lparr>node_heap := (node_heap s)(self := (node_heap s self)\<lparr>func := Some f\<rparr>)\<rparr>, self)"

text \<open>\<open>FluentNode.__rshift__\<close>, the spec's \<open>connect_to\<close>.\<close>

definition node_rshift :: "pstate \<Rightarrow> node_id \<Rightarrow> pyobj \<Rightarrow> pstate \<times> (error + node_id)" where
  "node_rshift s self other =
     (case node_workflow (node_heap s self) of
        None \<Rightarrow> (s, Inl (PreconditionError (name (node_heap s self))))
      | Some w \<Rightarrow>
          (case other of
             Typed (Node other_node) \<Rightarrow>
               if node_workflow (node_heap s other_node) \<noteq> node_workflow (node_heap s self)
               then (s, Inl CrossWorkflowError)
               else (graph_call s w
                       (AddEdge (name (node_heap s self)) (name (node_heap s other_node))),
                     Inr other_node)
           | Typed (Str other_str) \<Rightarrow>
               if other_str = ''END'' \<or> other_str = END
               then (graph_call s w (AddEdge (name (node_heap s self)) END), Inr self)
               else (graph_call s w (AddEdge (name (node_heap s self)) other_str), Inr self)
           | Other \<Rightarrow> (s, Inl InvalidTargetError)))"

text \<open>
  \<open>x >> y >> z\<close> is \<open>(x >> y) >> z\<close>: the second \<open>>>\<close> is called on what the first
  returned, and is not reached when the first raised.
\<close>

definition then_rshift ::
  "pstate \<times> (error + node_id) \<Rightarrow> pyobj \<Rightarrow> pstate \<times> (error + node_id)" where
  "then_rshift r other =
     (case r of
        (s, Inl e) \<Rightarrow> (s, Inl e)
      | (s, Inr n) \<Rightarrow> node_rshift s n other)"

subsection \<open>FluentWorkflow\<close>

text \<open>\<open>FluentWorkflow.__rshift__\<close>, the operator form of the spec's \<open>register\<close>.\<close>

definition workflow_rshift :: "pstate \<Rightarrow> wf_id \<Rightarrow> pyobj \<Rightarrow> pstate \<times> (error + node_id)" where
  "workflow_rshift s self node =
     (case node of
        Typed (Node n) \<Rightarrow>
          (case func (node_heap s n) of
             None \<Rightarrow> (s, Inl (MissingCallableError (name (node_heap s n))))
           | Some f \<Rightarrow>
               (let nm = name (node_heap s n);
                    s1 = s\<lparr>dict_heap :=
                           (dict_heap s)(NodesOf self := (dict_heap s (NodesOf self))(nm \<mapsto> n))\<rparr>;
                    s2 = s1\<lparr>node_heap :=
                           (node_heap s1)(n := (node_heap s1 n)\<lparr>node_workflow := Some self\<rparr>)\<rparr>
                in (graph_call s2 self (AddNode nm f), Inr n)))
      | _ \<Rightarrow> (s, Inl NotFluentNodeError))"

text \<open>\<open>add_node\<close>, the method form: the same, returning the workflow.\<close>

definition add_node :: "pstate \<Rightarrow> wf_id \<Rightarrow> pyobj \<Rightarrow> pstate \<times> (error + wf_id)" where
  "add_node s self node =
     (case workflow_rshift s self node of
        (s', Inl e) \<Rightarrow> (s', Inl e)
      | (s', Inr _) \<Rightarrow> (s', Inr self))"

definition set_entry_point :: "pstate \<Rightarrow> wf_id \<Rightarrow> node_or_str \<Rightarrow> pstate \<times> (error + wf_id)" where
  "set_entry_point s self node_name_or_node =
     (let entry_name = (case node_name_or_node of
                          Node n \<Rightarrow> name (node_heap s n)
                        | Str x \<Rightarrow> x)
      in if entry_name \<notin> dom (dict_heap s (NodesOf self))
         then (s, Inl (UnknownNodeError entry_name))
         else (let s1 = s\<lparr>wf_heap :=
                          (wf_heap s)(self := (wf_heap s self)\<lparr>wf_entry_point := Some entry_name\<rparr>)\<rparr>
               in (graph_call s1 self (SetEntryPoint entry_name), Inr self)))"

text \<open>
  The loop of \<open>add_conditional_edges\<close> over \<open>mapping.items()\<close>: each step assigns
  \<open>converted_mapping[key]\<close>, which in a Python dictionary replaces the value of a key
  already present and appends a new key otherwise (\<open>AList.update\<close>).
\<close>

fun convert_mapping ::
  "pstate \<Rightarrow> (string \<times> node_or_str) list \<Rightarrow> (string \<times> string) list \<Rightarrow> (string \<times> string) list" where
  "convert_mapping s [] converted_mapping = converted_mapping"
| "convert_mapping s ((key, val) # items) converted_mapping =
     convert_mapping s items
       (case val of
          Node n \<Rightarrow> AList.update key (name (node_heap s n)) converted_mapping
        | Str x \<Rightarrow> AList.update key x converted_mapping)"

definition add_conditional_edges ::
  "pstate \<Rightarrow> wf_id \<Rightarrow> node_or_str \<Rightarrow> callable \<Rightarrow> (string \<times> node_or_str) list
     \<Rightarrow> pstate \<times> (error + wf_id)" where
  "add_conditional_edges s self source condition_func mapping =
     (let source_name = (case source of
                           Node n \<Rightarrow> name (node_heap s n)
                         | Str x \<Rightarrow> x);
          converted_mapping = convert_mapping s mapping []
      in (graph_call s self (AddConditionalEdges source_name condition_func converted_mapping),
          Inr self))"

definition get_node :: "pstate \<Rightarrow> wf_id \<Rightarrow> string \<Rightarrow> pstate \<times> node_id option" where
  "get_node s self nm = (s, dict_heap s (NodesOf self) nm)"

text \<open>
  \<open>compile\<close>. The test is \<open>not self._entry_point\<close>, which is true for \<open>None\<close> and for
  the empty string. The engine's own \<open>compile\<close> is not part of the source at hand: it
  is the parameter \<open>graph_compile\<close>, a function of the engine and the keyword arguments.
\<close>

definition compile ::
  "(engine_call list \<Rightarrow> 'k \<Rightarrow> 'r) \<Rightarrow> pstate \<Rightarrow> wf_id \<Rightarrow> 'k \<Rightarrow> pstate \<times> (error + 'r)" where
  "compile graph_compile s self kwargs =
     (case wf_entry_point (wf_heap s self) of
        None \<Rightarrow> (s, Inl NoEntryPointError)
      | Some e \<Rightarrow>
          if e = [] then (s, Inl NoEntryPointError)
          else (s, Inr (graph_compile (wf_graph (wf_heap s self)) kwargs)))"

text \<open>The property \<open>graph\<close>: the engine itself.\<close>

definition graph :: "pstate \<Rightarrow> wf_id \<Rightarrow> engine_call list" where
  "graph s self = wf_graph (wf_heap s self)"

text \<open>
  The property \<open>nodes\<close>: \<open>self._nodes.copy()\<close> creates a dictionary object with the
  same items and returns the reference to it.
\<close>

definition nodes :: "pstate \<Rightarrow> wf_id \<Rightarrow> pstate \<times> dict_ref" where
  "nodes s self =
     (s\<lparr>dict_heap := (dict_heap s)(Copy (next_copy s) := dict_heap s (NodesOf self)),
        next_copy := Suc (next_copy s)\<rparr>,
      Copy (next_copy s))"

text \<open>\<open>create_workflow\<close> returns a new workflow: the fields \<open>FluentWorkflow_init\<close>.\<close>

definition create_workflow :: fluent_workflow where
  "create_workflow = FluentWorkflow_init"

subsection \<open>What the caller can do with a dictionary it holds\<close>

text \<open>
  The operations of a Python dictionary that change it, applied to a dictionary
  object: \<open>d[k] = v\<close>, \<open>d.pop(k, None)\<close> and \<open>d.clear()\<close>.
\<close>

datatype dict_op = SetItem string node_id | PopItem string | Clear

fun dict_apply :: "pstate \<Rightarrow> dict_ref \<Rightarrow> dict_op \<Rightarrow> pstate" where
  "dict_apply s d (SetItem k v) = s\<lparr>dict_heap := (dict_heap s)(d := (dict_heap s d)(k \<mapsto> v))\<rparr>"
| "dict_apply s d (PopItem k) = s\<lparr>dict_heap := (dict_heap s)(d := (dict_heap s d)(k := None))\<rparr>"
| "dict_apply s d Clear = s\<lparr>dict_heap := (dict_heap s)(d := Map.empty)\<rparr>"

fun dict_apply_all :: "pstate \<Rightarrow> dict_ref \<Rightarrow> dict_op list \<Rightarrow> pstate" where
  "dict_apply_all s d [] = s"
| "dict_apply_all s d (x # xs) = dict_apply_all (dict_apply s d x) d xs"

subsection \<open>Programs over the builder\<close>

text \<open>
  A caller's program is a sequence of calls on the two classes; \<open>run\<close> executes it, a
  call that raises leaving the state as the method left it. A caller reaches the
  \<open>_nodes\<close> dictionary of a workflow only through the methods, and changes only the
  copies it was given.
\<close>

datatype api_call =
    CallWithFunction node_id callable
  | CallRegister wf_id pyobj
  | CallAddNode wf_id pyobj
  | CallConnect node_id pyobj
  | CallSetEntryPoint wf_id node_or_str
  | CallAddConditionalEdges wf_id node_or_str callable "(string \<times> node_or_str) list"
  | CallGetNode wf_id string
  | CallNodes wf_id
  | CallChangeCopy nat dict_op

fun step :: "pstate \<Rightarrow> api_call \<Rightarrow> pstate" where
  "step s (CallWithFunction n f) = fst (with_function s n f)"
| "step s (CallRegister w x) = fst (workflow_rshift s w x)"
| "step s (CallAddNode w x) = fst (add_node s w x)"
| "step s (CallConnect n x) = fst (node_rshift s n x)"
| "step s (CallSetEntryPoint w x) = fst (set_entry_point s w x)"
| "step s (CallAddConditionalEdges w src f m) = fst (add_conditional_edges s w src f m)"
| "step s (CallGetNode w nm) = fst (get_node s w nm)"
| "step s (CallNodes w) = fst (nodes s w)"
| "step s (CallChangeCopy k x) = dict_apply s (Copy k) x"

fun run :: "pstate \<Rightarrow> api_call list \<Rightarrow> pstate" where
  "run s [] = s"
| "run s (c # cs) = run (step s c) cs"

subsection \<open>Notions used to state the properties\<close>

text \<open>
  The name that an argument of type \<open>Union[str, FluentNode]\<close> stands for: what the
  \<open>isinstance\<close> test at the head of \<open>set_entry_point\<close> and \<open>add_conditional_edges\<close>
  computes.
\<close>

definition name_of :: "pstate \<Rightarrow> node_or_str \<Rightarrow> string" where
  "name_of s x = (case x of Node n \<Rightarrow> name (node_heap s n) | Str y \<Rightarrow> y)"

text \<open>A name is registered in a workflow when it is a key of the workflow's \<open>_nodes\<close>.\<close>

definition registered_name :: "pstate \<Rightarrow> wf_id \<Rightarrow> string \<Rightarrow> bool" where
  "registered_name s w nm = (dict_heap s (NodesOf w) nm \<noteq> None)"

text \<open>
  The spec's invariant on edges, for one call that the engine of workflow \<open>w\<close> has
  received: a source is a registered name, a target is a registered name or the
  terminal marker.
\<close>

fun endpoints_ok :: "pstate \<Rightarrow> wf_id \<Rightarrow> engine_call \<Rightarrow> bool" where
  "endpoints_ok s w (AddEdge a b) =
     (registered_name s w a \<and> (registered_name s w b \<or> b = END))"
| "endpoints_ok s w (AddConditionalEdges src f m) =
     (registered_name s w src \<and> list_all (\<lambda>kv. registered_name s w (snd kv) \<or> snd kv = END) m)"
| "endpoints_ok s w (AddNode nm f) = True"
| "endpoints_ok s w (SetEntryPoint nm) = True"

definition edge_endpoints_ok :: "pstate \<Rightarrow> wf_id \<Rightarrow> bool" where
  "edge_endpoints_ok s w = list_all (endpoints_ok s w) (wf_graph (wf_heap s w))"

text \<open>
  What the caller passes as an edge endpoint is registered, in the state \<open>s\<close> in which
  the call is made: a string given to \<open>>>\<close> on a node of workflow \<open>w\<close> is the terminal
  marker, its alias \<open>"END"\<close> or a key of the \<open>_nodes\<close> of \<open>w\<close>; the source given to
  \<open>add_conditional_edges\<close> stands for such a key, and every value of the mapping stands
  for such a key or is the terminal marker. Nothing is asked of the other calls, a node
  given to \<open>>>\<close> as target included.
\<close>

fun names_registered :: "pstate \<Rightarrow> api_call \<Rightarrow> bool" where
  "names_registered s (CallConnect n (Typed (Str t))) =
     (case node_workflow (node_heap s n) of
        None \<Rightarrow> True
      | Some w \<Rightarrow> t = ''END'' \<or> t = END \<or> registered_name s w t)"
| "names_registered s (CallAddConditionalEdges w src f m) =
     (registered_name s w (name_of s src)
      \<and> list_all (\<lambda>kv. registered_name s w (name_of s (snd kv)) \<or> name_of s (snd kv) = END) m)"
| "names_registered s c = True"

text \<open>The same for every call of a program, each in the state the program has reached.\<close>

fun names_registered_all :: "pstate \<Rightarrow> api_call list \<Rightarrow> bool" where
  "names_registered_all s [] = True"
| "names_registered_all s (c # cs) = (names_registered s c \<and> names_registered_all (step s c) cs)"

text \<open>Every node that holds a workflow reference is registered there under its name.\<close>

definition back_refs_registered :: "pstate \<Rightarrow> bool" where
  "back_refs_registered s =
     (\<forall>n w. node_workflow (node_heap s n) = Some w \<longrightarrow> registered_name s w (name (node_heap s n)))"

subsection \<open>Example states and programs\<close>

text \<open>
  A state with two workflows. Nodes 0 to 4, named A, B, C, V and E, have callables and
  are in workflow 0; node 6, named X, has a callable and is in workflow 1; node 5 has a
  callable and the empty name, and is in no workflow; every other node is named X and
  is as \<open>FluentNode_init\<close> made it.
\<close>

definition ex_nodes :: "node_id \<Rightarrow> fluent_node" where
  "ex_nodes i =
     (if i = 0 then \<lparr>name = ''A'', func = Some (Fn ''fa''), node_workflow = Some 0\<rparr>
      else if i = 1 then \<lparr>name = ''B'', func = Some (Fn ''fb''), node_workflow = Some 0\<rparr>
      else if i = 2 then \<lparr>name = ''C'', func = Some (Fn ''fc''), node_workflow = Some 0\<rparr>
      else if i = 3 then \<lparr>name = ''V'', func = Some (Fn ''validate''), node_workflow = Some 0\<rparr>
      else if i = 4 then \<lparr>name = ''E'', func = Some (Fn ''handle_error''), node_workflow = Some 0\<rparr>
      else if i = 5 then \<lparr>name = [], func = Some (Fn ''f5''), node_workflow = None\<rparr>
      else if i = 6 then \<lparr>name = ''X'', func = Some (Fn ''f6''), node_workflow = Some 1\<rparr>
      else FluentNode_init ''X'')"

definition ex_workflows :: "wf_id \<Rightarrow> fluent_workflow" where
  "ex_workflows w =
     (if w = 0 then
        \<lparr>wf_graph = [AddNode ''A'' (Fn ''fa''), AddNode ''B'' (Fn ''fb''), AddNode ''C'' (Fn ''fc''),
                     AddNode ''V'' (Fn ''validate''), AddNode ''E'' (Fn ''handle_error'')],
         wf_entry_point = None\<rparr>
      else if w = 1 then \<lparr>wf_graph = [AddNode ''X'' (Fn ''f6'')], wf_entry_point = None\<rparr>
      else FluentWorkflow_init)"

definition ex_dicts :: "dict_ref \<Rightarrow> (string \<rightharpoonup> node_id)" where
  "ex_dicts d =
     (case d of
        NodesOf w \<Rightarrow>
          if w = 0 then map_of [(''A'', 0), (''B'', 1), (''C'', 2), (''V'', 3), (''E'', 4)]
          else if w = 1 then map_of [(''X'', 6)]
          else Map.empty
      | Copy k \<Rightarrow> Map.empty)"

definition ex_state :: pstate where
  "ex_state = \<lparr>node_heap = ex_nodes, wf_heap = ex_workflows, dict_heap = ex_dicts, next_copy = 0\<rparr>"

text \<open>Nodes 0 and 1, named A and B, as constructed.\<close>

definition ex_names :: "node_id \<Rightarrow> string" where
  "ex_names i = (if i = 0 then ''A'' else if i = 1 then ''B'' else ''X'')"

text \<open>
  A program on a node with the empty name: the node gets a callable, is added to
  workflow 0 and is made the entry point.
\<close>

definition empty_name_program :: "api_call list" where
  "empty_name_program =
     [CallWithFunction 0 (Fn ''f''), CallRegister 0 (Typed (Node 0)), CallSetEntryPoint 0 (Node 0)]"

text \<open>
  Two programs on the nodes A and B. In the first, A and B are added to workflow 0; A
  gets conditional edges to B and to the terminal marker; B is wired to A by name and
  to the terminal marker by its alias. In the second, A is added to workflow 0 and
  wired to a name that no node has.
\<close>

definition routed_program :: "api_call list" where
  "routed_program =
     [CallWithFunction 0 (Fn ''fa''), CallWithFunction 1 (Fn ''fb''),
      CallRegister 0 (Typed (Node 0)), CallRegister 0 (Typed (Node 1)),
      CallAddConditionalEdges 0 (Node 0) (Fn ''route'') [(''ok'', Node 1), (''fail'', Str END)],
      CallConnect 1 (Typed (Str ''A'')), CallConnect 1 (Typed (Str ''END''))]"

definition ghost_program :: "api_call list" where
  "ghost_program =
     [CallWithFunction 0 (Fn ''fa''), CallRegister 0 (Typed (Node 0)),
      CallConnect 0 (Typed (Str ''ghost''))]"

section \<open>Properties\<close>

subsection \<open>The engine after a call\<close>

lemma graph_graph_call:
  "graph (graph_call s w c) w' = (if w' = w then graph s w @ [c] else graph s w')"
  by (simp add: graph_def graph_call_def)

lemma node_heap_graph_call: "node_heap (graph_call s w c) = node_heap s"
  by (simp add: graph_call_def)

lemma dict_heap_graph_call: "dict_heap (graph_call s w c) = dict_heap s"
  by (simp add: graph_call_def)

lemma entry_point_graph_call:
  "wf_entry_point (wf_heap (graph_call s w c) w') = wf_entry_point (wf_heap s w')"
  by (simp add: graph_call_def)

lemmas ex_defs = ex_state_def ex_nodes_def ex_workflows_def ex_dicts_def FluentNode_init_def
  FluentWorkflow_init_def

subsection \<open>Edges from a node that is in no workflow\<close>

text \<open>
  C5. A node whose workflow reference is absent cannot create an edge: \<open>>>\<close> on it
  raises the precondition error (with the node's name in the message) whatever the
  target is, and the state after the call is the state before it: the engine of every
  workflow \<open>w\<close> has received what it had received before.
\<close>

theorem connect_unregistered_fails:
  assumes "node_workflow (node_heap s n) = None"
  shows "node_rshift s n target = (s, Inl (PreconditionError (name (node_heap s n))))
         \<and> graph (fst (node_rshift s n target)) w = graph s w"
  using assms by (simp add: node_rshift_def)

theorem connect_unregistered_fails_witness:
  "node_rshift ex_state 5 (Typed (Node 0)) = (ex_state, Inl (PreconditionError []))
   \<and> graph (fst (node_rshift ex_state 5 (Typed (Str END)))) 0 = graph ex_state 0"
proof -
  have h: "node_workflow (node_heap ex_state 5) = None"
    by (simp add: ex_defs)
  have n: "name (node_heap ex_state 5) = []"
    by (simp add: ex_defs)
  show ?thesis
    using connect_unregistered_fails [OF h] by (simp add: n)
qed

subsection \<open>Edges between nodes of different workflows\<close>

text \<open>
  C6. When \<open>a\<close> is in workflow \<open>w1\<close> and \<open>b\<close> in another workflow \<open>w2\<close>, \<open>a >> b\<close>
  raises the cross-workflow error and leaves the state as it was: the engines of
  \<open>w1\<close> and \<open>w2\<close> have received what they had received before.
\<close>

theorem connect_across_workflows_fails:
  assumes "node_workflow (node_heap s a) = Some w1"
    and "node_workflow (node_heap s b) = Some w2"
    and "w1 \<noteq> w2"
  shows "node_rshift s a (Typed (Node b)) = (s, Inl CrossWorkflowError)
         \<and> graph (fst (node_rshift s a (Typed (Node b)))) w1 = graph s w1
         \<and> graph (fst (node_rshift s a (Typed (Node b)))) w2 = graph s w2"
  using assms by (simp add: node_rshift_def)

theorem connect_across_workflows_fails_witness:
  "node_rshift ex_state 0 (Typed (Node 6)) = (ex_state, Inl CrossWorkflowError)
   \<and> node_rshift ex_state 6 (Typed (Node 0)) = (ex_state, Inl CrossWorkflowError)"
proof -
  have a: "node_workflow (node_heap ex_state 0) = Some 0"
    by (simp add: ex_defs)
  have b: "node_workflow (node_heap ex_state 6) = Some 1"
    by (simp add: ex_defs)
  have "(0::nat) \<noteq> 1" and "(1::nat) \<noteq> 0" by simp_all
  then show ?thesis
    using connect_across_workflows_fails [OF a b] connect_across_workflows_fails [OF b a]
    by simp
qed

text \<open>
  C10. When \<open>a\<close> is in a workflow and \<open>b\<close> is in none, \<open>a >> b\<close> passes the test on
  \<open>a\<close> and fails the comparison of the two workflow references: the error is the
  cross-workflow error, not the precondition error, and the state is unchanged: the
  engine of every workflow \<open>w'\<close> has received what it had received before.
\<close>

theorem connect_to_unregistered_target_fails:
  assumes "node_workflow (node_heap s a) = Some w"
    and "node_workflow (node_heap s b) = None"
  shows "node_rshift s a (Typed (Node b)) = (s, Inl CrossWorkflowError)
         \<and> snd (node_rshift s a (Typed (Node b))) \<noteq> Inl (PreconditionError (name (node_heap s a)))
         \<and> graph (fst (node_rshift s a (Typed (Node b)))) w' = graph s w'"
  using assms by (simp add: node_rshift_def)

theorem connect_to_unregistered_target_fails_witness:
  "node_rshift ex_state 0 (Typed (Node 5)) = (ex_state, Inl CrossWorkflowError)"
proof -
  have a: "node_workflow (node_heap ex_state 0) = Some 0"
    by (simp add: ex_defs)
  have b: "node_workflow (node_heap ex_state 5) = None"
    by (simp add: ex_defs)
  show ?thesis
    using connect_to_unregistered_target_fails [OF a b] by simp
qed

subsection \<open>Edges between nodes of one workflow, and to the terminal marker\<close>

lemma connect_terminal:
  assumes "node_workflow (node_heap s a) = Some w" and "t = ''END'' \<or> t = END"
  shows "node_rshift s a (Typed (Str t)) = (graph_call s w (AddEdge (name (node_heap s a)) END), Inr a)"
  using assms by (auto simp add: node_rshift_def)

lemma connect_node:
  assumes "node_workflow (node_heap s a) = Some w" and "node_workflow (node_heap s b) = Some w"
  shows "node_rshift s a (Typed (Node b)) =
           (graph_call s w (AddEdge (name (node_heap s a)) (name (node_heap s b))), Inr b)"
  using assms by (simp add: node_rshift_def)

text \<open>
  C4. For a node \<open>a\<close> of workflow \<open>w\<close>: \<open>a >> END\<close> (and \<open>a >> "END"\<close>, the alias) makes
  the engine of \<open>w\<close> receive the edge from \<open>a\<close>'s name to the terminal marker and returns
  \<open>a\<close>; for a node \<open>b\<close> of the same workflow, \<open>a >> b\<close> makes it receive the edge from
  \<open>a\<close>'s name to \<open>b\<close>'s name and returns \<open>b\<close>; and for a third node \<open>c\<close> of the workflow,
  \<open>a >> b >> c\<close> returns \<open>c\<close> and changes nothing but the engine of \<open>w\<close>, which receives
  the edge from \<open>a\<close> to \<open>b\<close> and then the edge from \<open>b\<close> to \<open>c\<close>.
\<close>

theorem connect_returns_and_wires:
  assumes a: "node_workflow (node_heap s a) = Some w"
  shows "node_rshift s a (Typed (Str END)) =
           (graph_call s w (AddEdge (name (node_heap s a)) END), Inr a)
       \<and> node_rshift s a (Typed (Str ''END'')) =
           (graph_call s w (AddEdge (name (node_heap s a)) END), Inr a)
       \<and> (node_workflow (node_heap s b) = Some w \<longrightarrow>
            node_rshift s a (Typed (Node b)) =
              (graph_call s w (AddEdge (name (node_heap s a)) (name (node_heap s b))), Inr b))
       \<and> (node_workflow (node_heap s b) = Some w \<and> node_workflow (node_heap s c) = Some w \<longrightarrow>
            then_rshift (node_rshift s a (Typed (Node b))) (Typed (Node c)) =
              (graph_call
                 (graph_call s w (AddEdge (name (node_heap s a)) (name (node_heap s b))))
                 w (AddEdge (name (node_heap s b)) (name (node_heap s c))),
               Inr c)
          \<and> (\<forall>w'. graph (fst (then_rshift (node_rshift s a (Typed (Node b))) (Typed (Node c)))) w' =
                (if w' = w
                 then graph s w @ [AddEdge (name (node_heap s a)) (name (node_heap s b)),
                                   AddEdge (name (node_heap s b)) (name (node_heap s c))]
                 else graph s w')))"
proof -
  have t1: "node_rshift s a (Typed (Str END)) =
              (graph_call s w (AddEdge (name (node_heap s a)) END), Inr a)"
    using a by (simp add: connect_terminal)
  have t2: "node_rshift s a (Typed (Str ''END'')) =
              (graph_call s w (AddEdge (name (node_heap s a)) END), Inr a)"
    using a by (simp add: connect_terminal)
  have chain:
    "then_rshift (node_rshift s a (Typed (Node b))) (Typed (Node c)) =
       (graph_call
          (graph_call s w (AddEdge (name (node_heap s a)) (name (node_heap s b))))
          w (AddEdge (name (node_heap s b)) (name (node_heap s c))),
        Inr c)"
    if b: "node_workflow (node_heap s b) = Some w" and c: "node_workflow (node_heap s c) = Some w"
  proof -
    let ?s1 = "graph_call s w (AddEdge (name (node_heap s a)) (name (node_heap s b)))"
    have first: "node_rshift s a (Typed (Node b)) = (?s1, Inr b)"
      using a b by (rule connect_node)
    have "node_workflow (node_heap ?s1 b) = Some w" and "node_workflow (node_heap ?s1 c) = Some w"
      using b c by (simp_all add: node_heap_graph_call)
    then have "node_rshift ?s1 b (Typed (Node c)) =
                 (graph_call ?s1 w (AddEdge (name (node_heap ?s1 b)) (name (node_heap ?s1 c))), Inr c)"
      by (rule connect_node)
    then show ?thesis
      by (simp add: then_rshift_def first node_heap_graph_call)
  qed
  have node: "node_workflow (node_heap s b) = Some w \<longrightarrow>
      node_rshift s a (Typed (Node b)) =
        (graph_call s w (AddEdge (name (node_heap s a)) (name (node_heap s b))), Inr b)"
    using a by (simp add: connect_node)
  have both: "node_workflow (node_heap s b) = Some w \<and> node_workflow (node_heap s c) = Some w \<longrightarrow>
      then_rshift (node_rshift s a (Typed (Node b))) (Typed (Node c)) =
        (graph_call
           (graph_call s w (AddEdge (name (node_heap s a)) (name (node_heap s b))))
           w (AddEdge (name (node_heap s b)) (name (node_heap s c))),
         Inr c)
      \<and> (\<forall>w'. graph (fst (then_rshift (node_rshift s a (Typed (Node b))) (Typed (Node c)))) w' =
            (if w' = w
             then graph s w @ [AddEdge (name (node_heap s a)) (name (node_heap s b)),
                               AddEdge (name (node_heap s b)) (name (node_heap s c))]
             else graph s w'))"
    using chain by (simp add: graph_graph_call)
  show ?thesis
    by (intro conjI t1 t2 node both)
qed

theorem connect_returns_and_wires_witness:
  "node_rshift ex_state 2 (Typed (Str END)) = (graph_call ex_state 0 (AddEdge ''C'' END), Inr 2)
   \<and> snd (node_rshift ex_state 0 (Typed (Node 1))) = Inr 1
   \<and> graph (fst (then_rshift (node_rshift ex_state 0 (Typed (Node 1))) (Typed (Node 2)))) 0 =
       graph ex_state 0 @ [AddEdge ''A'' ''B'', AddEdge ''B'' ''C'']"
proof -
  have a: "node_workflow (node_heap ex_state 0) = Some 0"
    and b: "node_workflow (node_heap ex_state 1) = Some 0"
    and c: "node_workflow (node_heap ex_state 2) = Some 0"
    by (simp_all add: ex_defs)
  have n: "name (node_heap ex_state 0) = ''A''" "name (node_heap ex_state 1) = ''B''"
    "name (node_heap ex_state 2) = ''C''"
    by (simp_all add: ex_defs)
  have chain: "graph (fst (then_rshift (node_rshift ex_state 0 (Typed (Node 1))) (Typed (Node 2)))) 0 =
       graph ex_state 0 @ [AddEdge (name (node_heap ex_state 0)) (name (node_heap ex_state 1)),
                           AddEdge (name (node_heap ex_state 1)) (name (node_heap ex_state 2))]"
    and first: "node_rshift ex_state 0 (Typed (Node 1)) =
       (graph_call ex_state 0 (AddEdge (name (node_heap ex_state 0)) (name (node_heap ex_state 1))), Inr 1)"
    using connect_returns_and_wires [OF a, of 1 2] b c by auto
  have terminal: "node_rshift ex_state 2 (Typed (Str END)) =
       (graph_call ex_state 0 (AddEdge (name (node_heap ex_state 2)) END), Inr 2)"
    using connect_returns_and_wires [OF c] by blast
  have "graph (fst (then_rshift (node_rshift ex_state 0 (Typed (Node 1))) (Typed (Node 2)))) 0 =
       graph ex_state 0 @ [AddEdge ''A'' ''B'', AddEdge ''B'' ''C'']"
    using chain by (simp only: n)
  moreover have "snd (node_rshift ex_state 0 (Typed (Node 1))) = Inr 1"
    by (simp only: first snd_conv)
  moreover have "node_rshift ex_state 2 (Typed (Str END)) =
       (graph_call ex_state 0 (AddEdge ''C'' END), Inr 2)"
    using terminal by (simp only: n)
  ultimately show ?thesis
    by blast
qed

subsection \<open>Registration\<close>

text \<open>
  C7. Adding a node \<open>n\<close> to a workflow \<open>w\<close> raises the missing-callable error exactly
  when \<open>n\<close> has no callable, and then changes nothing. When \<open>n\<close> has the callable \<open>f\<close>,
  the call returns \<open>n\<close>; afterwards \<open>get_node\<close> finds \<open>n\<close> under its name, the workflow
  reference of \<open>n\<close> is \<open>w\<close>, the name and the callable of \<open>n\<close> are as before, and the
  engine of \<open>w\<close> has received \<open>add_node\<close> with the name and the callable.
\<close>

theorem register_node:
  "(snd (workflow_rshift s w (Typed (Node n))) = Inl (MissingCallableError (name (node_heap s n))))
     = (func (node_heap s n) = None)
   \<and> (func (node_heap s n) = None \<longrightarrow>
        workflow_rshift s w (Typed (Node n)) = (s, Inl (MissingCallableError (name (node_heap s n)))))
   \<and> (\<forall>f. func (node_heap s n) = Some f \<longrightarrow>
        snd (workflow_rshift s w (Typed (Node n))) = Inr n
        \<and> snd (get_node (fst (workflow_rshift s w (Typed (Node n)))) w (name (node_heap s n))) = Some n
        \<and> node_heap (fst (workflow_rshift s w (Typed (Node n)))) n =
            \<lparr>name = name (node_heap s n), func = Some f, node_workflow = Some w\<rparr>
        \<and> graph (fst (workflow_rshift s w (Typed (Node n)))) w =
            graph s w @ [AddNode (name (node_heap s n)) f])"
  by (cases "func (node_heap s n)")
    (simp_all add: workflow_rshift_def get_node_def graph_def graph_call_def Let_def)

theorem register_node_witness:
  "workflow_rshift ex_state 1 (Typed (Node 7)) = (ex_state, Inl (MissingCallableError ''X''))
   \<and> snd (workflow_rshift ex_state 1 (Typed (Node 5))) = Inr 5
   \<and> snd (get_node (fst (workflow_rshift ex_state 1 (Typed (Node 5)))) 1 []) = Some 5
   \<and> graph (fst (workflow_rshift ex_state 1 (Typed (Node 5)))) 1 =
       [AddNode ''X'' (Fn ''f6''), AddNode [] (Fn ''f5'')]"
proof -
  have f7: "func (node_heap ex_state 7) = None" and n7: "name (node_heap ex_state 7) = ''X''"
    and f5: "func (node_heap ex_state 5) = Some (Fn ''f5'')" and n5: "name (node_heap ex_state 5) = []"
    and g: "graph ex_state 1 = [AddNode ''X'' (Fn ''f6'')]"
      "graph ex_state (Suc 0) = [AddNode ''X'' (Fn ''f6'')]"
    by (simp_all add: ex_defs graph_def)
  show ?thesis
    using register_node [of ex_state 1 7] register_node [of ex_state 1 5]
    by (simp add: f7 n7 f5 n5 g)
qed

subsection \<open>The entry point\<close>

text \<open>
  C8. \<open>set_entry_point\<close> takes the name its argument stands for (the argument itself
  when it is a string, the node's name when it is a node). It raises the unknown-node
  error exactly when that name is not a key of the workflow's \<open>_nodes\<close>, and then
  changes nothing; otherwise it returns the workflow, the workflow's entry point is that
  name afterwards, and the engine has received \<open>set_entry_point\<close> with that name.
\<close>

theorem set_entry_point_checks_name:
  "name_of s (Str x) = x \<and> name_of s (Node n) = name (node_heap s n)
   \<and> (snd (set_entry_point s w arg) = Inl (UnknownNodeError (name_of s arg)))
       = (name_of s arg \<notin> dom (dict_heap s (NodesOf w)))
   \<and> (name_of s arg \<notin> dom (dict_heap s (NodesOf w)) \<longrightarrow>
        set_entry_point s w arg = (s, Inl (UnknownNodeError (name_of s arg))))
   \<and> (name_of s arg \<in> dom (dict_heap s (NodesOf w)) \<longrightarrow>
        snd (set_entry_point s w arg) = Inr w
        \<and> wf_entry_point (wf_heap (fst (set_entry_point s w arg)) w) = Some (name_of s arg)
        \<and> graph (fst (set_entry_point s w arg)) w = graph s w @ [SetEntryPoint (name_of s arg)]
        \<and> node_heap (fst (set_entry_point s w arg)) = node_heap s
        \<and> dict_heap (fst (set_entry_point s w arg)) = dict_heap s)"
  by (cases arg)
    (simp_all add: set_entry_point_def name_of_def graph_def graph_call_def Let_def)

theorem set_entry_point_checks_name_witness:
  "set_entry_point ex_state 0 (Str ''missing'') = (ex_state, Inl (UnknownNodeError ''missing''))
   \<and> snd (set_entry_point ex_state 0 (Node 0)) = Inr 0
   \<and> wf_entry_point (wf_heap (fst (set_entry_point ex_state 0 (Node 0))) 0) = Some ''A''
   \<and> snd (set_entry_point ex_state 0 (Node 6)) = Inl (UnknownNodeError ''X'')"
proof -
  have m: "''missing'' \<notin> dom (dict_heap ex_state (NodesOf 0))"
    and x: "''X'' \<notin> dom (dict_heap ex_state (NodesOf 0))"
    and a: "''A'' \<in> dom (dict_heap ex_state (NodesOf 0))"
    by (simp_all add: ex_defs dom_def)
  have n: "name_of ex_state (Node 0) = ''A''" "name_of ex_state (Node 6) = ''X''"
    "name_of ex_state (Str ''missing'') = ''missing''"
    by (simp_all add: name_of_def ex_defs)
  have "set_entry_point ex_state 0 (Str ''missing'') = (ex_state, Inl (UnknownNodeError ''missing''))"
    using set_entry_point_checks_name [of ex_state _ _ 0 "Str ''missing''"] m
    unfolding n by blast
  moreover have "snd (set_entry_point ex_state 0 (Node 0)) = Inr 0
      \<and> wf_entry_point (wf_heap (fst (set_entry_point ex_state 0 (Node 0))) 0) = Some ''A''"
    using set_entry_point_checks_name [of ex_state _ _ 0 "Node 0"] a
    unfolding n by blast
  moreover have "snd (set_entry_point ex_state 0 (Node 6)) = Inl (UnknownNodeError ''X'')"
    using set_entry_point_checks_name [of ex_state _ _ 0 "Node 6"] x
    unfolding n by simp
  ultimately show ?thesis
    by simp
qed

subsection \<open>Conditional edges\<close>

lemma update_new_key:
  "k \<notin> fst ` set al \<Longrightarrow> AList.update k v al = al @ [(k, v)]"
  by (induction al) auto

lemma convert_mapping_step:
  "convert_mapping s ((k, v) # items) acc =
     convert_mapping s items (AList.update k (name_of s v) acc)"
  by (cases v) (simp_all add: name_of_def)

lemma convert_mapping_distinct:
  "distinct (map fst items) \<Longrightarrow> fst ` set items \<inter> fst ` set acc = {} \<Longrightarrow>
     convert_mapping s items acc = acc @ map (\<lambda>kv. (fst kv, name_of s (snd kv))) items"
proof (induction items arbitrary: acc)
  case Nil
  then show ?case by simp
next
  case (Cons p items)
  obtain k v where p: "p = (k, v)" by (cases p)
  from Cons.prems have fresh: "k \<notin> fst ` set acc" and rest: "distinct (map fst items)"
    and k_once: "k \<notin> fst ` set items" and apart: "fst ` set items \<inter> fst ` set acc = {}"
    by (auto simp add: p)
  have "fst ` set items \<inter> fst ` set (acc @ [(k, name_of s v)]) = {}"
    using k_once apart by auto
  with rest have "convert_mapping s items (acc @ [(k, name_of s v)]) =
      (acc @ [(k, name_of s v)]) @ map (\<lambda>kv. (fst kv, name_of s (snd kv))) items"
    by (rule Cons.IH)
  then show ?case
    by (simp add: p convert_mapping_step update_new_key [OF fresh] del: convert_mapping.simps)
qed

text \<open>
  C1, with the terminal marker itself in the scenario. The items of \<open>mapping\<close> are
  those of a Python dictionary: their keys are distinct. \<open>add_conditional_edges\<close> never
  raises and returns the workflow; the engine of the workflow receives one call, with
  the name the source stands for, the condition function, and the mapping in which
  every value is replaced by the name it stands for: a node by its name, a string (the
  terminal marker is one) by itself. Nothing else changes. In the scenario (below, for
  the nodes V and E) the value of \<open>fail\<close> is the terminal marker, and the engine
  receives the name of E and the terminal marker.
\<close>

theorem add_conditional_edges_forwards_names:
  assumes "distinct (map fst mapping)"
  shows "name_of s (Node n) = name (node_heap s n) \<and> name_of s (Str x) = x
       \<and> add_conditional_edges s w source condition_func mapping =
           (graph_call s w
              (AddConditionalEdges (name_of s source) condition_func
                 (map (\<lambda>kv. (fst kv, name_of s (snd kv))) mapping)),
            Inr w)
       \<and> graph (fst (add_conditional_edges s w source condition_func mapping)) w =
           graph s w @ [AddConditionalEdges (name_of s source) condition_func
                          (map (\<lambda>kv. (fst kv, name_of s (snd kv))) mapping)]"
proof -
  have "convert_mapping s mapping [] = map (\<lambda>kv. (fst kv, name_of s (snd kv))) mapping"
    using convert_mapping_distinct [OF assms, of "[]" s] by simp
  then have "add_conditional_edges s w source condition_func mapping =
           (graph_call s w
              (AddConditionalEdges (name_of s source) condition_func
                 (map (\<lambda>kv. (fst kv, name_of s (snd kv))) mapping)),
            Inr w)"
    by (cases source) (simp_all add: add_conditional_edges_def name_of_def)
  then show ?thesis
    by (simp add: name_of_def graph_graph_call)
qed

theorem add_conditional_edges_forwards_names_witness:
  "snd (add_conditional_edges ex_state 0 (Node 3) (Fn ''route'')
          [(''ok'', Node 4), (''fail'', Str END)]) = Inr 0
   \<and> graph (fst (add_conditional_edges ex_state 0 (Node 3) (Fn ''route'')
                   [(''ok'', Node 4), (''fail'', Str END)])) 0 =
       graph ex_state 0 @ [AddConditionalEdges ''V'' (Fn ''route'') [(''ok'', ''E''), (''fail'', END)]]"
proof -
  have d: "distinct (map fst [(''ok'', Node 4), (''fail'', Str END)])"
    by simp
  have n: "name_of ex_state (Node 3) = ''V''" "name_of ex_state (Node 4) = ''E''"
    "name_of ex_state (Str END) = END"
    by (simp_all add: name_of_def ex_defs)
  have m: "map (\<lambda>kv. (fst kv, name_of ex_state (snd kv))) [(''ok'', Node 4), (''fail'', Str END)] =
      [(''ok'', ''E''), (''fail'', END)]"
    by (simp add: n)
  note spec = add_conditional_edges_forwards_names [OF d, of ex_state 0 "[]" 0 "Node 3" "Fn ''route''"]
  have "snd (add_conditional_edges ex_state 0 (Node 3) (Fn ''route'')
          [(''ok'', Node 4), (''fail'', Str END)]) = Inr 0"
    using spec by simp
  moreover have "graph (fst (add_conditional_edges ex_state 0 (Node 3) (Fn ''route'')
                   [(''ok'', Node 4), (''fail'', Str END)])) 0 =
       graph ex_state 0 @ [AddConditionalEdges ''V'' (Fn ''route'') [(''ok'', ''E''), (''fail'', END)]]"
  proof -
    from spec have "graph (fst (add_conditional_edges ex_state 0 (Node 3) (Fn ''route'')
                   [(''ok'', Node 4), (''fail'', Str END)])) 0 =
       graph ex_state 0 @ [AddConditionalEdges (name_of ex_state (Node 3)) (Fn ''route'')
          (map (\<lambda>kv. (fst kv, name_of ex_state (snd kv))) [(''ok'', Node 4), (''fail'', Str END)])]"
      by blast
    then show ?thesis
      by (simp only: n m)
  qed
  ultimately show ?thesis
    by blast
qed

text \<open>
  C1, as stated, fails when the value of \<open>fail\<close> is the string alias \<open>"END"\<close> of the
  terminal marker: the engine receives the alias as it is, which is not the terminal
  marker. (\<open>>>\<close> on a node replaces the same alias by the terminal marker.)
\<close>

theorem conditional_edges_keep_alias:
  "graph (fst (add_conditional_edges ex_state 0 (Node 3) (Fn ''route'')
                 [(''ok'', Node 4), (''fail'', Str ''END'')])) 0 =
     graph ex_state 0 @ [AddConditionalEdges ''V'' (Fn ''route'') [(''ok'', ''E''), (''fail'', ''END'')]]
   \<and> graph (fst (add_conditional_edges ex_state 0 (Node 3) (Fn ''route'')
                 [(''ok'', Node 4), (''fail'', Str ''END'')])) 0 \<noteq>
     graph ex_state 0 @ [AddConditionalEdges ''V'' (Fn ''route'') [(''ok'', ''E''), (''fail'', END)]]
   \<and> ''END'' \<noteq> END"
  by (simp add: add_conditional_edges_def graph_graph_call ex_defs END_def)

lemma connect_replaces_alias:
  "graph (fst (node_rshift ex_state 4 (Typed (Str ''END'')))) 0 = graph ex_state 0 @ [AddEdge ''E'' END]"
  by (simp add: node_rshift_def graph_graph_call ex_defs)

subsection \<open>Reading the registered nodes\<close>

lemma dict_apply_other:
  "d' \<noteq> d \<Longrightarrow> dict_heap (dict_apply s d x) d' = dict_heap s d'"
  by (cases x) simp_all

lemma dict_apply_all_other:
  "d' \<noteq> d \<Longrightarrow> dict_heap (dict_apply_all s d xs) d' = dict_heap s d'"
  by (induction xs arbitrary: s) (simp_all add: dict_apply_other)

text \<open>
  C9. The dictionary that the property \<open>nodes\<close> returns is a new object, not the
  \<open>_nodes\<close> of any workflow, with the items of the workflow's \<open>_nodes\<close>. Whatever
  the caller then does to it (a sequence \<open>xs\<close> of assignments, removals and clears),
  \<open>get_node\<close> returns for every workflow and name what it returned before \<open>nodes\<close>
  was read. \<open>get_node\<close> itself leaves the state as it is, so a second call returns
  what the first returned.
\<close>

theorem nodes_returns_a_copy:
  "snd (nodes s w) \<noteq> NodesOf w'
   \<and> dict_heap (fst (nodes s w)) (snd (nodes s w)) = dict_heap s (NodesOf w)
   \<and> snd (get_node (fst (nodes s w)) w' nm) = snd (get_node s w' nm)
   \<and> snd (get_node (dict_apply_all (fst (nodes s w)) (snd (nodes s w)) xs) w' nm) =
       snd (get_node s w' nm)
   \<and> fst (get_node s w nm) = s
   \<and> snd (get_node (fst (get_node s w nm)) w nm) = snd (get_node s w nm)"
proof -
  have "dict_heap (dict_apply_all (fst (nodes s w)) (Copy (next_copy s)) xs) (NodesOf w') =
      dict_heap (fst (nodes s w)) (NodesOf w')"
    by (rule dict_apply_all_other) simp
  then show ?thesis
    by (simp add: nodes_def get_node_def)
qed

theorem nodes_returns_a_copy_witness:
  "snd (get_node (dict_apply_all (fst (nodes ex_state 0)) (snd (nodes ex_state 0))
                    [SetItem ''Z'' 9, PopItem ''A'', Clear]) 0 ''A'') = Some 0
   \<and> snd (get_node ex_state 0 ''A'') = Some 0"
proof -
  have "snd (get_node ex_state 0 ''A'') = Some 0"
    by (simp add: get_node_def ex_defs)
  then show ?thesis
    using nodes_returns_a_copy [of ex_state 0 0 "''A''" "[SetItem ''Z'' 9, PopItem ''A'', Clear]"]
    by simp
qed

text \<open>
  The same removal on the \<open>_nodes\<close> dictionary itself would be seen by \<open>get_node\<close>:
  the copy is what keeps the caller away from it.
\<close>

lemma change_of_nodes_dict_is_seen:
  "snd (get_node (dict_apply ex_state (NodesOf 0) (PopItem ''A'')) 0 ''A'') = None
   \<and> snd (get_node ex_state 0 ''A'') = Some 0"
  by (simp add: get_node_def ex_defs)

subsection \<open>Compilation\<close>

text \<open>
  What \<open>compile\<close> does: it raises when the entry point is \<open>None\<close> or the empty string,
  and otherwise returns what the engine's \<open>compile\<close> returns for the keyword arguments;
  the state is as before in both cases.
\<close>

lemma compile_cases:
  "compile graph_compile s w kwargs =
     (if wf_entry_point (wf_heap s w) = None \<or> wf_entry_point (wf_heap s w) = Some []
      then (s, Inl NoEntryPointError)
      else (s, Inr (graph_compile (graph s w) kwargs)))"
  by (simp add: compile_def graph_def split: option.splits)

lemma compile_without_entry_point:
  "compile graph_compile (initial names) w kwargs = (initial names, Inl NoEntryPointError)"
  by (simp add: compile_def initial_def FluentWorkflow_init_def)

text \<open>
  C2. A node with the empty name gets a callable and is added to workflow 0;
  \<open>set_entry_point\<close> with that node then succeeds and records the empty string as the
  entry point, and the engine receives it. \<open>compile\<close> raises all the same, as if no
  entry point had been set.
\<close>

theorem compile_rejects_empty_entry_name:
  "snd (set_entry_point
          (run (initial (\<lambda>i. [])) [CallWithFunction 0 (Fn ''f''), CallRegister 0 (Typed (Node 0))])
          0 (Node 0)) = Inr 0
   \<and> wf_entry_point (wf_heap (run (initial (\<lambda>i. [])) empty_name_program) 0) = Some []
   \<and> graph (run (initial (\<lambda>i. [])) empty_name_program) 0 = [AddNode [] (Fn ''f''), SetEntryPoint []]
   \<and> snd (compile graph_compile (run (initial (\<lambda>i. [])) empty_name_program) 0 kwargs) =
       Inl NoEntryPointError"
  by (simp add: empty_name_program_def compile_def graph_def initial_def with_function_def
      workflow_rshift_def set_entry_point_def graph_call_def FluentNode_init_def
      FluentWorkflow_init_def Let_def)

subsection \<open>The endpoints of the edges\<close>

lemmas method_defs = with_function_def workflow_rshift_def add_node_def node_rshift_def
  set_entry_point_def add_conditional_edges_def get_node_def nodes_def graph_call_def

lemma dict_apply_nodes_of: "dict_heap (dict_apply s (Copy k) x) (NodesOf w) = dict_heap s (NodesOf w)"
  by (cases x) simp_all

lemma dict_apply_node_heap: "node_heap (dict_apply s d x) = node_heap s"
  by (cases x) simp_all

lemma dict_apply_wf_heap: "wf_heap (dict_apply s d x) = wf_heap s"
  by (cases x) simp_all

lemma step_keeps_names: "name (node_heap (step s c) n) = name (node_heap s n)"
  by (cases c)
    (auto simp add: method_defs dict_apply_node_heap Let_def
      split: option.splits pyobj.splits node_or_str.splits)

lemma step_keeps_registered:
  "registered_name s w nm \<Longrightarrow> registered_name (step s c) w nm"
  by (cases c)
    (auto simp add: registered_name_def method_defs dict_apply_nodes_of Let_def
      split: option.splits pyobj.splits node_or_str.splits)

lemma step_back_refs:
  assumes "back_refs_registered s"
  shows "back_refs_registered (step s c)"
  unfolding back_refs_registered_def
proof (intro allI impI)
  fix n w
  assume after: "node_workflow (node_heap (step s c) n) = Some w"
  have "node_workflow (node_heap s n) = Some w
        \<or> registered_name (step s c) w (name (node_heap s n))"
    using after
    by (cases c)
      (auto simp add: registered_name_def method_defs dict_apply_node_heap Let_def
        split: option.splits pyobj.splits node_or_str.splits if_splits)
  then have "registered_name (step s c) w (name (node_heap s n))"
    using assms step_keeps_registered by (auto simp add: back_refs_registered_def)
  then show "registered_name (step s c) w (name (node_heap (step s c) n))"
    by (simp add: step_keeps_names)
qed

lemma endpoints_ok_mono:
  assumes "\<And>nm. registered_name s w nm \<Longrightarrow> registered_name s' w nm"
    and "endpoints_ok s w c"
  shows "endpoints_ok s' w c"
proof (cases c)
  case (AddConditionalEdges src f m)
  with assms show ?thesis
    by (auto simp add: list_all_iff)
qed (use assms in auto)

lemma update_values:
  "list_all (\<lambda>kv. P (snd kv)) al \<Longrightarrow> P v \<Longrightarrow> list_all (\<lambda>kv. P (snd kv)) (AList.update k v al)"
  by (induction al) auto

lemma convert_mapping_values:
  "list_all (\<lambda>kv. P (snd kv)) acc \<Longrightarrow> list_all (\<lambda>kv. P (name_of s (snd kv))) m \<Longrightarrow>
     list_all (\<lambda>kv. P (snd kv)) (convert_mapping s m acc)"
proof (induction m arbitrary: acc)
  case Nil
  then show ?case by simp
next
  case (Cons p m)
  obtain k v where p: "p = (k, v)" by (cases p)
  from Cons.prems have "list_all (\<lambda>kv. P (snd kv)) (AList.update k (name_of s v) acc)"
    by (simp add: p update_values)
  moreover from Cons.prems have "list_all (\<lambda>kv. P (name_of s (snd kv))) m"
    by simp
  ultimately have "list_all (\<lambda>kv. P (snd kv)) (convert_mapping s m (AList.update k (name_of s v) acc))"
    by (rule Cons.IH)
  then show ?case
    by (simp add: p convert_mapping_step del: convert_mapping.simps)
qed

lemma add_conditional_edges_state:
  "fst (add_conditional_edges s w src f m) =
     graph_call s w (AddConditionalEdges (name_of s src) f (convert_mapping s m []))"
  by (cases src) (simp_all add: add_conditional_edges_def name_of_def)

lemma step_new_calls:
  assumes "back_refs_registered s" and "names_registered s c"
  shows "\<exists>cs. wf_graph (wf_heap (step s c) w) = wf_graph (wf_heap s w) @ cs
              \<and> list_all (endpoints_ok s w) cs"
proof (cases c)
  case (CallConnect n x)
  show ?thesis
  proof (cases "node_workflow (node_heap s n)")
    case None
    then show ?thesis
      by (simp add: CallConnect node_rshift_def)
  next
    case (Some v)
    then have src: "registered_name s v (name (node_heap s n))"
      using assms(1) by (simp add: back_refs_registered_def)
    show ?thesis
    proof (cases x)
      case Other
      then show ?thesis
        by (simp add: CallConnect Some node_rshift_def)
    next
      case (Typed y)
      show ?thesis
      proof (cases y)
        case (Node b)
        show ?thesis
        proof (cases "node_workflow (node_heap s b) = Some v")
          case True
          then have "registered_name s v (name (node_heap s b))"
            using assms(1) by (simp add: back_refs_registered_def)
          with src True show ?thesis
            by (simp add: CallConnect Some Typed Node node_rshift_def graph_call_def)
        next
          case False
          then show ?thesis
            by (simp add: CallConnect Some Typed Node node_rshift_def)
        qed
      next
        case (Str t)
        with assms(2) have "t = ''END'' \<or> t = END \<or> registered_name s v t"
          by (simp add: CallConnect Typed Some)
        with src show ?thesis
          by (auto simp add: CallConnect Some Typed Str node_rshift_def graph_call_def)
      qed
    qed
  qed
next
  case (CallAddConditionalEdges w' src f m)
  let ?P = "\<lambda>v. registered_name s w' v \<or> v = END"
  from assms(2) have src: "registered_name s w' (name_of s src)"
    and vals: "list_all (\<lambda>kv. ?P (name_of s (snd kv))) m"
    by (simp_all add: CallAddConditionalEdges)
  have "list_all (\<lambda>kv. ?P (snd kv)) (convert_mapping s m [])"
    using vals by (intro convert_mapping_values) simp_all
  with src have "endpoints_ok s w' (AddConditionalEdges (name_of s src) f (convert_mapping s m []))"
    by simp
  then show ?thesis
    by (simp add: CallAddConditionalEdges add_conditional_edges_state graph_call_def)
next
  case (CallChangeCopy k x)
  then show ?thesis
    by (simp add: dict_apply_wf_heap)
qed (auto simp add: method_defs Let_def split: option.splits pyobj.splits node_or_str.splits)

lemma step_edge_endpoints:
  assumes "back_refs_registered s" and "names_registered s c" and "edge_endpoints_ok s w"
  shows "edge_endpoints_ok (step s c) w"
proof -
  from step_new_calls [OF assms(1,2)] obtain cs
    where cs: "wf_graph (wf_heap (step s c) w) = wf_graph (wf_heap s w) @ cs"
      and ok: "list_all (endpoints_ok s w) cs"
    by blast
  have "list_all (endpoints_ok s w) (wf_graph (wf_heap s w) @ cs)"
    using assms(3) ok by (simp add: edge_endpoints_ok_def)
  then have "list_all (endpoints_ok (step s c) w) (wf_graph (wf_heap s w) @ cs)"
    unfolding list_all_iff using endpoints_ok_mono [of s w "step s c"] step_keeps_registered
    by blast
  then show ?thesis
    by (simp add: edge_endpoints_ok_def cs)
qed

lemma run_edge_endpoints:
  assumes "names_registered_all s calls"
    and "back_refs_registered s" and "\<And>w. edge_endpoints_ok s w"
  shows "back_refs_registered (run s calls) \<and> edge_endpoints_ok (run s calls) w"
  using assms
proof (induction calls arbitrary: s)
  case Nil
  then show ?case by simp
next
  case (Cons c calls)
  have "back_refs_registered (step s c)"
    using Cons.prems(2) by (rule step_back_refs)
  moreover have "edge_endpoints_ok (step s c) w'" for w'
    using Cons.prems by (simp add: step_edge_endpoints)
  ultimately show ?case
    using Cons.IH [of "step s c"] Cons.prems(1) by simp
qed

lemma initial_back_refs: "back_refs_registered (initial names)"
  by (simp add: back_refs_registered_def initial_def FluentNode_init_def)

lemma initial_edge_endpoints: "edge_endpoints_ok (initial names) w"
  by (simp add: edge_endpoints_ok_def initial_def FluentWorkflow_init_def)

lemma connect_forwards_string:
  assumes "node_workflow (node_heap s a) = Some w"
  shows "graph (fst (node_rshift s a (Typed (Str t)))) w =
           graph s w @ [AddEdge (name (node_heap s a)) (if t = ''END'' then END else t)]"
  using assms by (simp add: node_rshift_def graph_graph_call)

text \<open>
  C3, as amended. Start from nodes and workflows as constructed and run any program in
  which the caller passes registered names: every string given to \<open>>>\<close> on a node as
  target is, when the call is made, a key of the \<open>_nodes\<close> of the node's workflow, the
  terminal marker or its alias \<open>"END"\<close>, and in every call of \<open>add_conditional_edges\<close>
  the source stands for a key of the \<open>_nodes\<close> of the workflow and every value of the
  mapping stands for such a key or is the terminal marker. Then, for every workflow,
  every edge its engine has received has a source that is a key of the workflow's
  \<open>_nodes\<close> and a target that is such a key or the terminal marker.

  The builder does not check what it is passed. In any state, \<open>>>\<close> on a node of
  workflow \<open>v\<close> with a string makes the engine of \<open>v\<close> receive the edge to that string
  (to the terminal marker for the alias), and \<open>add_conditional_edges\<close> makes it receive
  the names that the source and the values stand for, registered or not.
\<close>

theorem edge_endpoints_registered:
  "(names_registered_all (initial names) calls \<longrightarrow>
      edge_endpoints_ok (run (initial names) calls) w)
   \<and> (node_workflow (node_heap s a) = Some v \<longrightarrow>
        graph (fst (node_rshift s a (Typed (Str t)))) v =
          graph s v @ [AddEdge (name (node_heap s a)) (if t = ''END'' then END else t)])
   \<and> graph (fst (add_conditional_edges s v src f m)) v =
        graph s v @ [AddConditionalEdges (name_of s src) f (convert_mapping s m [])]"
proof (intro conjI impI)
  assume "names_registered_all (initial names) calls"
  then show "edge_endpoints_ok (run (initial names) calls) w"
    using run_edge_endpoints [OF _ initial_back_refs initial_edge_endpoints] by simp
next
  assume "node_workflow (node_heap s a) = Some v"
  then show "graph (fst (node_rshift s a (Typed (Str t)))) v =
      graph s v @ [AddEdge (name (node_heap s a)) (if t = ''END'' then END else t)]"
    by (rule connect_forwards_string)
next
  show "graph (fst (add_conditional_edges s v src f m)) v =
      graph s v @ [AddConditionalEdges (name_of s src) f (convert_mapping s m [])]"
    by (simp add: add_conditional_edges_state graph_graph_call)
qed

theorem edge_endpoints_registered_witness:
  "names_registered_all (initial ex_names) routed_program
   \<and> edge_endpoints_ok (run (initial ex_names) routed_program) 0
   \<and> graph (run (initial ex_names) routed_program) 0 =
       [AddNode ''A'' (Fn ''fa''), AddNode ''B'' (Fn ''fb''),
        AddConditionalEdges ''A'' (Fn ''route'') [(''ok'', ''B''), (''fail'', END)],
        AddEdge ''B'' ''A'', AddEdge ''B'' END]
   \<and> graph (fst (node_rshift ex_state 0 (Typed (Str ''ghost'')))) 0 =
       graph ex_state 0 @ [AddEdge ''A'' ''ghost'']"
proof -
  have c: "names_registered_all (initial ex_names) routed_program"
    by (simp add: routed_program_def registered_name_def name_of_def initial_def ex_names_def
        with_function_def workflow_rshift_def node_rshift_def add_conditional_edges_def
        graph_call_def FluentNode_init_def FluentWorkflow_init_def END_def Let_def)
  have g: "graph (run (initial ex_names) routed_program) 0 =
       [AddNode ''A'' (Fn ''fa''), AddNode ''B'' (Fn ''fb''),
        AddConditionalEdges ''A'' (Fn ''route'') [(''ok'', ''B''), (''fail'', END)],
        AddEdge ''B'' ''A'', AddEdge ''B'' END]"
    by (simp add: routed_program_def graph_def initial_def ex_names_def with_function_def
        workflow_rshift_def node_rshift_def add_conditional_edges_def graph_call_def
        FluentNode_init_def FluentWorkflow_init_def END_def Let_def)
  have a: "node_workflow (node_heap ex_state 0) = Some 0" and n: "name (node_heap ex_state 0) = ''A''"
    by (simp_all add: ex_defs)
  note spec = edge_endpoints_registered [of ex_names routed_program 0 ex_state 0 0 "''ghost''"]
  have "edge_endpoints_ok (run (initial ex_names) routed_program) 0"
    using spec c by blast
  moreover have "graph (fst (node_rshift ex_state 0 (Typed (Str ''ghost'')))) 0 =
       graph ex_state 0 @ [AddEdge ''A'' ''ghost'']"
  proof -
    from spec a have "graph (fst (node_rshift ex_state 0 (Typed (Str ''ghost'')))) 0 =
        graph ex_state 0 @ [AddEdge (name (node_heap ex_state 0)) (if ''ghost'' = ''END'' then END else ''ghost'')]"
      by blast
    then show ?thesis
      by (simp add: n)
  qed
  ultimately show ?thesis
    using c g by blast
qed

text \<open>
  C3, as stated, fails: a string that is not the terminal marker is forwarded as the
  target of an edge whether or not a node has that name.
\<close>

theorem edge_to_unregistered_name:
  "graph (run (initial ex_names) ghost_program) 0 = [AddNode ''A'' (Fn ''fa''), AddEdge ''A'' ''ghost'']
   \<and> \<not> registered_name (run (initial ex_names) ghost_program) 0 ''ghost''
   \<and> ''ghost'' \<noteq> END
   \<and> \<not> edge_endpoints_ok (run (initial ex_names) ghost_program) 0"
  by (simp add: ghost_program_def edge_endpoints_ok_def registered_name_def graph_def
      initial_def ex_names_def with_function_def workflow_rshift_def node_rshift_def
      graph_call_def FluentNode_init_def FluentWorkflow_init_def END_def Let_def)

text \<open>
  So does \<open>add_conditional_edges\<close>: neither the source nor the values of the mapping
  are compared with the names of the workflow.
\<close>

lemma conditional_edge_from_unregistered_name:
  "\<not> edge_endpoints_ok
       (fst (add_conditional_edges (initial ex_names) 0 (Str ''ghost'') (Fn ''route'') [])) 0"
  by (simp add: edge_endpoints_ok_def registered_name_def add_conditional_edges_def
      graph_call_def initial_def FluentWorkflow_init_def)

end
